theory Spec2Isabelle
  imports Complex_Main "HOL-Library.Sublist"
begin

section \<open>The agronomic recommendation engine of synasix\<close>

text \<open>
  The engine is the click handler \<open>generateRecommendations\<close> of the React component
  \<open>CropRecommendation\<close>. The repository holds two variants of the component: the
  soil-aware one (in \<open>ChatBot.tsx\<close>, lines 1116-1330) and the simple one without a soil
  type (\<open>CropRecommendation.tsx\<close>, lines 39-180). Both are embedded here, the simple one
  with the suffix \<open>_simple\<close>.
\<close>

subsection \<open>JavaScript numbers as far as the engine uses them\<close>

text \<open>
  \<open>temp\<close> is the result of \<open>parseFloat\<close>: a finite binary64 number, an infinity or
  NaN. The engine only compares it with integer literals, so a finite number is kept as
  the rational it denotes. Every comparison with NaN is false.
\<close>

datatype number = NaN | NegInfinity | PosInfinity | Finite rat

fun ge :: "number \<Rightarrow> int \<Rightarrow> bool" where
  "ge NaN c = False"
| "ge NegInfinity c = False"
| "ge PosInfinity c = True"
| "ge (Finite q) c = (of_int c \<le> q)"

fun le :: "number \<Rightarrow> int \<Rightarrow> bool" where
  "le NaN c = False"
| "le NegInfinity c = True"
| "le PosInfinity c = False"
| "le (Finite q) c = (q \<le> of_int c)"

text \<open>
  \<open>parseFloat\<close> (ECMAScript 19.2.4) first removes leading white space (\<open>TrimString\<close>).
  A string is a list of bytes here, read as UTF-8: white space is the six ASCII characters
  TAB, LF, VT, FF, CR and SP, and the encodings of U+00A0, U+1680, U+2000 to U+200A,
  U+2028, U+2029, U+202F, U+205F, U+3000 and U+FEFF.
\<close>

definition isAsciiWhiteSpace :: "char \<Rightarrow> bool" where
  "isAsciiWhiteSpace c =
     (c \<in> set [CHR 0x09, CHR 0x0A, CHR 0x0B, CHR 0x0C, CHR 0x0D, CHR 0x20])"

definition isWhiteSpace2 :: "char \<Rightarrow> char \<Rightarrow> bool" where
  "isWhiteSpace2 c1 c2 = (c1 = CHR 0xC2 \<and> c2 = CHR 0xA0)"

definition isWhiteSpace3 :: "char \<Rightarrow> char \<Rightarrow> char \<Rightarrow> bool" where
  "isWhiteSpace3 c1 c2 c3 =
     ((c1 = CHR 0xE1 \<and> c2 = CHR 0x9A \<and> c3 = CHR 0x80)
      \<or> (c1 = CHR 0xE2 \<and> c2 = CHR 0x80
          \<and> c3 \<in> set [CHR 0x80, CHR 0x81, CHR 0x82, CHR 0x83, CHR 0x84, CHR 0x85, CHR 0x86,
                       CHR 0x87, CHR 0x88, CHR 0x89, CHR 0x8A, CHR 0xA8, CHR 0xA9, CHR 0xAF])
      \<or> (c1 = CHR 0xE2 \<and> c2 = CHR 0x81 \<and> c3 = CHR 0x9F)
      \<or> (c1 = CHR 0xE3 \<and> c2 = CHR 0x80 \<and> c3 = CHR 0x80)
      \<or> (c1 = CHR 0xEF \<and> c2 = CHR 0xBB \<and> c3 = CHR 0xBF))"

fun trimStart :: "string \<Rightarrow> string" where
  "trimStart (c1 # c2 # c3 # cs) =
     (if isAsciiWhiteSpace c1 then trimStart (c2 # c3 # cs)
      else if isWhiteSpace2 c1 c2 then trimStart (c3 # cs)
      else if isWhiteSpace3 c1 c2 c3 then trimStart cs
      else c1 # c2 # c3 # cs)"
| "trimStart [c1, c2] =
     (if isAsciiWhiteSpace c1 then trimStart [c2]
      else if isWhiteSpace2 c1 c2 then []
      else [c1, c2])"
| "trimStart [c1] = (if isAsciiWhiteSpace c1 then [] else [c1])"
| "trimStart [] = []"

text \<open>
  Then the longest prefix that is a \<open>StrDecimalLiteral\<close> is read: a sign, then
  \<open>Infinity\<close> or digits with an optional fraction and an optional exponent. An exponent
  mark without digits is not part of the prefix.
\<close>

definition isDigit :: "char \<Rightarrow> bool" where
  "isDigit c = (c \<in> set ''0123456789'')"

definition digitsValue :: "string \<Rightarrow> nat" where
  "digitsValue ds = foldl (\<lambda>a c. 10 * a + (of_char c - 48)) 0 ds"

definition readSign :: "string \<Rightarrow> bool \<times> string" where
  "readSign s =
     (case s of
        c # r \<Rightarrow> if c = CHR ''-'' then (True, r) else if c = CHR ''+'' then (False, r) else (False, s)
      | [] \<Rightarrow> (False, s))"

definition readExponent :: "string \<Rightarrow> int" where
  "readExponent s =
     (case s of
        c # r \<Rightarrow>
          if c = CHR ''e'' \<or> c = CHR ''E'' then
            (let (neg, r') = readSign r; ds = takeWhile isDigit r'
             in if ds = [] then 0
                else if neg then - int (digitsValue ds) else int (digitsValue ds))
          else 0
      | [] \<Rightarrow> 0)"

text \<open>
  The decimal value \<open>N / D\<close> is rounded to the nearest binary64 number, ties to even
  (IEEE 754): with \<open>e\<close> the binary exponent of the value, at least -1022 (below that
  the numbers are subnormal), the value is rounded to a multiple of \<open>2 ^ (e - 52)\<close>; a
  result of \<open>2 ^ 1024\<close> or more is infinite. (\<open>nat\<close> of a negative integer is 0,
  so of the two powers in a product or quotient below one is 1.) The sign is applied
  afterwards; negative zero is kept as zero, which compares alike. (For literals of more
  than 20 significant digits ECMAScript allows, besides this result, at most the
  neighbouring number.)
\<close>

fun bitLength :: "nat \<Rightarrow> nat" where
  "bitLength n = (if n = 0 then 0 else Suc (bitLength (n div 2)))"

declare bitLength.simps [simp del]

definition scale2 :: "nat \<Rightarrow> int \<Rightarrow> rat" where
  "scale2 n e = of_nat n * 2 ^ nat e / 2 ^ nat (- e)"

definition floorLog2From :: "nat \<Rightarrow> nat \<Rightarrow> int \<Rightarrow> int" where
  "floorLog2From N D k = (if D * 2 ^ nat k \<le> N * 2 ^ nat (- k) then k else k - 1)"

definition floorLog2 :: "nat \<Rightarrow> nat \<Rightarrow> int" where
  "floorLog2 N D = floorLog2From N D (int (bitLength N) - int (bitLength D))"

definition tiesToEven :: "nat \<Rightarrow> nat \<Rightarrow> nat \<Rightarrow> nat" where
  "tiesToEven q r den =
     (if 2 * r < den then q
      else if den < 2 * r then q + 1
      else if even q then q else q + 1)"

definition roundQuotient :: "nat \<Rightarrow> nat \<Rightarrow> nat" where
  "roundQuotient num den = tiesToEven (num div den) (num mod den) den"

definition toDouble :: "nat \<Rightarrow> int \<Rightarrow> number" where
  "toDouble n e =
     (if 1023 < e \<or> (e = 1023 \<and> 2 ^ 53 \<le> n) then PosInfinity
      else Finite (scale2 n (e - 52)))"

definition roundAt :: "nat \<Rightarrow> nat \<Rightarrow> int \<Rightarrow> number" where
  "roundAt N D e = toDouble (roundQuotient (N * 2 ^ nat (52 - e)) (D * 2 ^ nat (e - 52))) e"

definition roundToDouble :: "nat \<Rightarrow> nat \<Rightarrow> number" where
  "roundToDouble N D =
     (if N = 0 then Finite 0 else roundAt N D (max (floorLog2 N D) (- 1022)))"

fun negateNumber :: "number \<Rightarrow> number" where
  "negateNumber NaN = NaN"
| "negateNumber NegInfinity = PosInfinity"
| "negateNumber PosInfinity = NegInfinity"
| "negateNumber (Finite q) = Finite (- q)"

definition decimalToDouble :: "nat \<Rightarrow> int \<Rightarrow> number" where
  "decimalToDouble m ex = roundToDouble (m * 10 ^ nat ex) (10 ^ nat (- ex))"

definition parseFloat :: "string \<Rightarrow> number" where
  "parseFloat str =
     (let (neg, s) = readSign (trimStart str) in
      if take 8 s = ''Infinity'' then (if neg then NegInfinity else PosInfinity)
      else
        let ip = takeWhile isDigit s;
            r1 = dropWhile isDigit s;
            (fp, r2) = (case r1 of
                          c # r \<Rightarrow> if c = CHR ''.'' then (takeWhile isDigit r, dropWhile isDigit r)
                                   else ([], r1)
                        | [] \<Rightarrow> ([], r1))
        in if ip = [] \<and> fp = [] then NaN
           else
             let v = decimalToDouble (digitsValue (ip @ fp)) (readExponent r2 - int (length fp))
             in if neg then negateNumber v else v)"

subsection \<open>Data of the component\<close>

text \<open>
  The interfaces \<open>NPKValues\<close>, \<open>CropSuggestion\<close> and \<open>FertilizerSuggestion\<close> are the
  same in both files. The fields \<open>name\<close> and \<open>type\<close> of \<open>FertilizerSuggestion\<close> are
  called \<open>fertilizerName\<close> and \<open>fertilizerType\<close> here, since \<open>name\<close> is already the
  field of \<open>CropSuggestion\<close>.
\<close>

record NPKValues =
  nitrogen :: int
  phosphorus :: int
  potassium :: int

record CropSuggestion =
  name :: string
  suitability :: int
  reason :: string
  growthPeriod :: string
  expectedYield :: string
  waterRequirement :: string

record FertilizerSuggestion =
  fertilizerName :: string
  fertilizerType :: string
  application :: string
  quantity :: string
  timing :: string

record Recommendations =
  crops :: "CropSuggestion list"
  fertilizers :: "FertilizerSuggestion list"

text \<open>
  The state of the simple component (\<open>useState\<close> hooks of \<open>CropRecommendation.tsx\<close>,
  lines 40-46); the soil-aware component (\<open>ChatBot.tsx\<close>, lines 1117-1124) has the
  field \<open>soilType\<close> in addition. The NPK fields are only ever set to the result of
  \<open>parseInt(...) || 0\<close> or to the mock data, so they are integers.
\<close>

record SimpleState =
  temperature :: string
  npkValues :: NPKValues
  loading :: bool
  recommendations :: "Recommendations option"

record State = SimpleState +
  soilType :: string

datatype Toast = ToastError string | ToastSuccess string

subsection \<open>Ranking: \<open>Array.prototype.sort\<close> with a comparator\<close>

text \<open>
  \<open>cropSuggestions.sort((a, b) => b.suitability - a.suitability)\<close>. ECMAScript
  (since ES2019) requires the sort to be stable; with a consistent comparator its result is
  the one of this stable insertion sort. An element is placed before the first element of
  the sorted rest that the comparator does not put in front of it.
\<close>

fun sortInsert :: "('a \<Rightarrow> 'a \<Rightarrow> int) \<Rightarrow> 'a \<Rightarrow> 'a list \<Rightarrow> 'a list" where
  "sortInsert cmp x [] = [x]"
| "sortInsert cmp x (y # ys) = (if cmp x y \<le> 0 then x # y # ys else y # sortInsert cmp x ys)"

fun arraySort :: "('a \<Rightarrow> 'a \<Rightarrow> int) \<Rightarrow> 'a list \<Rightarrow> 'a list" where
  "arraySort cmp [] = []"
| "arraySort cmp (x # xs) = sortInsert cmp x (arraySort cmp xs)"

definition bySuitability :: "CropSuggestion \<Rightarrow> CropSuggestion \<Rightarrow> int" where
  "bySuitability a b = suitability b - suitability a"

subsection \<open>The soil-aware variant (\<open>ChatBot.tsx\<close>)\<close>

text \<open>Lines 1171-1280: the six crop rules, pushed in this order.\<close>

definition cropSuggestions :: "number \<Rightarrow> string \<Rightarrow> NPKValues \<Rightarrow> CropSuggestion list" where
  "cropSuggestions temp soil npk =
     (if ge temp 25 \<and> le temp 35 then
        (let (s, r) =
           (if soil = ''clayey'' \<or> soil = ''black'' then
              (95, ''Optimal temperature and '' @ soil @ '' soil excellent for rice cultivation with high water retention'')
            else if soil = ''loamy'' then
              (90, ''Optimal temperature and loamy soil good for rice cultivation'')
            else (85, ''Optimal temperature for rice cultivation''))
         in [\<lparr>name = ''Rice'', suitability = s, reason = r,
               growthPeriod = ''120-140 days'', expectedYield = ''4-6 tons/hectare'',
               waterRequirement = ''High (1200-1500mm)''\<rparr>])
      else []) @
     (if ge temp 20 \<and> le temp 30 then
        (let (s, r) =
           (if soil = ''loamy'' \<or> soil = ''black'' then
              (90, ''Good temperature range and '' @ soil @ '' soil ideal for wheat cultivation'')
            else if soil = ''clayey'' then
              (85, ''Good temperature and clayey soil suitable for wheat'')
            else (80, ''Good temperature range for wheat''))
         in [\<lparr>name = ''Wheat'', suitability = s, reason = r,
               growthPeriod = ''120-150 days'', expectedYield = ''3-4 tons/hectare'',
               waterRequirement = ''Medium (450-650mm)''\<rparr>])
      else []) @
     (if ge temp 25 \<and> le temp 40 \<and> potassium npk > 40 then
        (let (s, r) =
           (if soil = ''black'' \<or> soil = ''red'' then
              (90, ''High potassium, warm temperature and '' @ soil @ '' soil excellent for cotton cultivation'')
            else if soil = ''loamy'' then
              (85, ''High potassium, warm temperature and loamy soil good for cotton'')
            else (75, ''High potassium and warm temperature for cotton''))
         in [\<lparr>name = ''Cotton'', suitability = s, reason = r,
               growthPeriod = ''160-200 days'', expectedYield = ''2-3 tons/hectare'',
               waterRequirement = ''Medium (700-1200mm)''\<rparr>])
      else []) @
     (if ge temp 15 \<and> le temp 25 then
        (let (s, r) =
           (if soil = ''loamy'' \<or> soil = ''sandy'' then
              (85, ''Cool temperature and '' @ soil @ '' soil excellent for potato cultivation with good drainage'')
            else if soil = ''red'' then
              (80, ''Cool temperature and red soil good for potato cultivation'')
            else (70, ''Cool temperature suitable for potato''))
         in [\<lparr>name = ''Potato'', suitability = s, reason = r,
               growthPeriod = ''90-120 days'', expectedYield = ''20-25 tons/hectare'',
               waterRequirement = ''Medium (500-700mm)''\<rparr>])
      else []) @
     (if soil = ''sandy'' \<and> ge temp 20 \<and> le temp 35 then
        [\<lparr>name = ''Groundnut'', suitability = 88,
          reason = ''Sandy soil with good drainage perfect for groundnut cultivation'',
          growthPeriod = ''120-130 days'', expectedYield = ''2-3 tons/hectare'',
          waterRequirement = ''Medium (500-700mm)''\<rparr>]
      else []) @
     (if soil = ''red'' \<and> ge temp 20 \<and> le temp 30 then
        [\<lparr>name = ''Millets'', suitability = 85,
          reason = ''Red soil with good mineral content ideal for drought-resistant millets'',
          growthPeriod = ''75-100 days'', expectedYield = ''1-2 tons/hectare'',
          waterRequirement = ''Low (300-500mm)''\<rparr>]
      else [])"

text \<open>Lines 1283-1320: the three nutrient rules, then the organic entry.\<close>

definition fertilizerSuggestions :: "NPKValues \<Rightarrow> FertilizerSuggestion list" where
  "fertilizerSuggestions npk =
     (if nitrogen npk < 50 then
        [\<lparr>fertilizerName = ''Urea'', fertilizerType = ''Nitrogen Fertilizer'',
          application = ''Soil Application'', quantity = ''100-150 kg/hectare'',
          timing = ''Pre-sowing and top-dressing''\<rparr>]
      else []) @
     (if phosphorus npk < 40 then
        [\<lparr>fertilizerName = ''DAP (Di-Ammonium Phosphate)'', fertilizerType = ''Phosphorus Fertilizer'',
          application = ''Basal Application'', quantity = ''100-125 kg/hectare'',
          timing = ''At the time of sowing''\<rparr>]
      else []) @
     (if potassium npk < 45 then
        [\<lparr>fertilizerName = ''Muriate of Potash'', fertilizerType = ''Potassium Fertilizer'',
          application = ''Soil Application'', quantity = ''80-100 kg/hectare'',
          timing = ''Pre-sowing''\<rparr>]
      else []) @
     [\<lparr>fertilizerName = ''Vermicompost'', fertilizerType = ''Organic Fertilizer'',
       application = ''Soil Incorporation'', quantity = ''2-3 tons/hectare'',
       timing = ''15-20 days before sowing''\<rparr>]"

text \<open>
  Lines 1162-1329, the callback given to \<open>setTimeout\<close>. It reads the values of the
  render in which the button was pressed, stores the result and clears \<open>loading\<close>. The
  delay of two seconds is not modelled: the callback runs on the state the handler leaves.
\<close>

definition analysis :: "State \<Rightarrow> Toast list \<times> State" where
  "analysis st =
     (let temp = parseFloat (temperature st);
          npk = npkValues st;
          result = \<lparr>crops = arraySort bySuitability (cropSuggestions temp (soilType st) npk),
                    fertilizers = fertilizerSuggestions npk\<rparr>
      in ([ToastSuccess ''AI recommendations generated successfully!''],
          st\<lparr>recommendations := Some result, loading := False\<rparr>))"

text \<open>
  Lines 1143-1330. A failed check shows one error toast and returns with the state as it
  was; otherwise \<open>loading\<close> is set and the analysis is scheduled.
\<close>

definition generateRecommendations :: "State \<Rightarrow> Toast list \<times> State" where
  "generateRecommendations st =
     (if temperature st = [] \<or> temperature st = ''0'' then
        ([ToastError ''Please enter the current temperature''], st)
      else if soilType st = [] then
        ([ToastError ''Please select the soil type''], st)
      else if nitrogen (npkValues st) = 0 \<and> phosphorus (npkValues st) = 0
              \<and> potassium (npkValues st) = 0 then
        ([ToastError ''Please enter NPK values''], st)
      else analysis (st\<lparr>loading := True\<rparr>))"

subsection \<open>The simple variant (\<open>CropRecommendation.tsx\<close>)\<close>

text \<open>Lines 88-130: four crop rules with fixed scores.\<close>

definition cropSuggestions_simple :: "number \<Rightarrow> NPKValues \<Rightarrow> CropSuggestion list" where
  "cropSuggestions_simple temp npk =
     (if ge temp 25 \<and> le temp 35 then
        [\<lparr>name = ''Rice'', suitability = 95,
          reason = ''Optimal temperature and high nitrogen content suitable for rice cultivation'',
          growthPeriod = ''120-140 days'', expectedYield = ''4-6 tons/hectare'',
          waterRequirement = ''High (1200-1500mm)''\<rparr>]
      else []) @
     (if ge temp 20 \<and> le temp 30 then
        [\<lparr>name = ''Wheat'', suitability = 88,
          reason = ''Good temperature range with adequate phosphorus levels'',
          growthPeriod = ''120-150 days'', expectedYield = ''3-4 tons/hectare'',
          waterRequirement = ''Medium (450-650mm)''\<rparr>]
      else []) @
     (if ge temp 25 \<and> le temp 40 \<and> potassium npk > 40 then
        [\<lparr>name = ''Cotton'', suitability = 82,
          reason = ''High potassium content and warm temperature ideal for cotton'',
          growthPeriod = ''160-200 days'', expectedYield = ''2-3 tons/hectare'',
          waterRequirement = ''Medium (700-1200mm)''\<rparr>]
      else []) @
     (if ge temp 15 \<and> le temp 25 then
        [\<lparr>name = ''Potato'', suitability = 78,
          reason = ''Cool temperature with balanced NPK suitable for tuber development'',
          growthPeriod = ''90-120 days'', expectedYield = ''20-25 tons/hectare'',
          waterRequirement = ''Medium (500-700mm)''\<rparr>]
      else [])"

text \<open>Lines 133-170.\<close>

definition fertilizerSuggestions_simple :: "NPKValues \<Rightarrow> FertilizerSuggestion list" where
  "fertilizerSuggestions_simple npk =
     (if nitrogen npk < 50 then
        [\<lparr>fertilizerName = ''Urea'', fertilizerType = ''Nitrogen Fertilizer'',
          application = ''Soil Application'', quantity = ''100-150 kg/hectare'',
          timing = ''Pre-sowing and top-dressing''\<rparr>]
      else []) @
     (if phosphorus npk < 40 then
        [\<lparr>fertilizerName = ''DAP (Di-Ammonium Phosphate)'', fertilizerType = ''Phosphorus Fertilizer'',
          application = ''Basal Application'', quantity = ''100-125 kg/hectare'',
          timing = ''At the time of sowing''\<rparr>]
      else []) @
     (if potassium npk < 45 then
        [\<lparr>fertilizerName = ''Muriate of Potash'', fertilizerType = ''Potassium Fertilizer'',
          application = ''Soil Application'', quantity = ''80-100 kg/hectare'',
          timing = ''Pre-sowing''\<rparr>]
      else []) @
     [\<lparr>fertilizerName = ''Vermicompost'', fertilizerType = ''Organic Fertilizer'',
       application = ''Soil Incorporation'', quantity = ''2-3 tons/hectare'',
       timing = ''15-20 days before sowing''\<rparr>]"

text \<open>Lines 79-179 and 65-180. The state may carry further fields: they are kept.\<close>

definition analysis_simple :: "'a SimpleState_scheme \<Rightarrow> Toast list \<times> 'a SimpleState_scheme" where
  "analysis_simple st =
     (let temp = parseFloat (temperature st);
          npk = npkValues st;
          result = \<lparr>crops = arraySort bySuitability (cropSuggestions_simple temp npk),
                    fertilizers = fertilizerSuggestions_simple npk\<rparr>
      in ([ToastSuccess ''AI recommendations generated successfully!''],
          st\<lparr>recommendations := Some result, loading := False\<rparr>))"

definition generateRecommendations_simple ::
    "'a SimpleState_scheme \<Rightarrow> Toast list \<times> 'a SimpleState_scheme" where
  "generateRecommendations_simple st =
     (if temperature st = [] \<or> temperature st = ''0'' then
        ([ToastError ''Please enter the current temperature''], st)
      else if nitrogen (npkValues st) = 0 \<and> phosphorus (npkValues st) = 0
              \<and> potassium (npkValues st) = 0 then
        ([ToastError ''Please enter NPK values''], st)
      else analysis_simple (st\<lparr>loading := True\<rparr>))"

subsection \<open>Notions used to state the properties\<close>

text \<open>
  An input passes validation when none of the three checks of the soil-aware handler
  (lines 1144, 1149, 1154) returns early.
\<close>

definition valid :: "State \<Rightarrow> bool" where
  "valid st =
     (temperature st \<noteq> [] \<and> temperature st \<noteq> ''0'' \<and> soilType st \<noteq> []
      \<and> \<not> (nitrogen (npkValues st) = 0 \<and> phosphorus (npkValues st) = 0
             \<and> potassium (npkValues st) = 0))"

text \<open>What the component shows after the handler has run: the stored result, if any.\<close>

definition cropsOf :: "Toast list \<times> 'a SimpleState_scheme \<Rightarrow> CropSuggestion list" where
  "cropsOf out = (case recommendations (snd out) of None \<Rightarrow> [] | Some r \<Rightarrow> crops r)"

definition fertilizersOf :: "Toast list \<times> 'a SimpleState_scheme \<Rightarrow> FertilizerSuggestion list" where
  "fertilizersOf out =
     (case recommendations (snd out) of None \<Rightarrow> [] | Some r \<Rightarrow> fertilizers r)"

text \<open>The state of a freshly mounted component after the form has been filled in.\<close>

definition formInput :: "string \<Rightarrow> string \<Rightarrow> int \<Rightarrow> int \<Rightarrow> int \<Rightarrow> State" where
  "formInput t soil n p k =
     \<lparr>temperature = t, npkValues = \<lparr>nitrogen = n, phosphorus = p, potassium = k\<rparr>,
      loading = False, recommendations = None, soilType = soil\<rparr>"

definition nameScore :: "CropSuggestion \<Rightarrow> string \<times> int" where
  "nameScore c = (name c, suitability c)"

text \<open>The order in which the soil-aware callback pushes its six rules.\<close>

definition ruleOrder :: "string list" where
  "ruleOrder = [''Rice'', ''Wheat'', ''Cotton'', ''Potato'', ''Groundnut'', ''Millets'']"

definition rulePos :: "string \<Rightarrow> nat" where
  "rulePos n = length (takeWhile (\<lambda>r. r \<noteq> n) ruleOrder)"

text \<open>The four fertilizer entries, named.\<close>

definition ureaEntry :: FertilizerSuggestion where
  "ureaEntry =
     \<lparr>fertilizerName = ''Urea'', fertilizerType = ''Nitrogen Fertilizer'',
      application = ''Soil Application'', quantity = ''100-150 kg/hectare'',
      timing = ''Pre-sowing and top-dressing''\<rparr>"

definition dapEntry :: FertilizerSuggestion where
  "dapEntry =
     \<lparr>fertilizerName = ''DAP (Di-Ammonium Phosphate)'', fertilizerType = ''Phosphorus Fertilizer'',
      application = ''Basal Application'', quantity = ''100-125 kg/hectare'',
      timing = ''At the time of sowing''\<rparr>"

definition potashEntry :: FertilizerSuggestion where
  "potashEntry =
     \<lparr>fertilizerName = ''Muriate of Potash'', fertilizerType = ''Potassium Fertilizer'',
      application = ''Soil Application'', quantity = ''80-100 kg/hectare'',
      timing = ''Pre-sowing''\<rparr>"

definition organicEntry :: FertilizerSuggestion where
  "organicEntry =
     \<lparr>fertilizerName = ''Vermicompost'', fertilizerType = ''Organic Fertilizer'',
      application = ''Soil Incorporation'', quantity = ''2-3 tons/hectare'',
      timing = ''15-20 days before sowing''\<rparr>"

definition groundnutEntry :: CropSuggestion where
  "groundnutEntry =
     \<lparr>name = ''Groundnut'', suitability = 88,
      reason = ''Sandy soil with good drainage perfect for groundnut cultivation'',
      growthPeriod = ''120-130 days'', expectedYield = ''2-3 tons/hectare'',
      waterRequirement = ''Medium (500-700mm)''\<rparr>"

subsection \<open>The crop rules as the table of the specification\<close>

text \<open>
  The specification describes the crop rules as a table of records: an applicability
  predicate, a base score with a generic reason, and a mapping from some soil categories
  to an overriding score and a reason naming the soil. This is that table, read off the
  source, and the evaluator the specification describes; it is compared with
  \<open>cropSuggestions\<close> below.
\<close>

record CropRule =
  cropName :: string
  applicability :: "number \<Rightarrow> string \<Rightarrow> NPKValues \<Rightarrow> bool"
  baseScore :: int
  genericReason :: string
  soilModifiers :: "(string \<times> int \<times> string) list"
  metaGrowthPeriod :: string
  metaExpectedYield :: string
  metaWaterRequirement :: string

definition riceRule :: CropRule where
  "riceRule =
     \<lparr>cropName = ''Rice'',
      applicability = (\<lambda>temp soil npk. ge temp 25 \<and> le temp 35),
      baseScore = 85, genericReason = ''Optimal temperature for rice cultivation'',
      soilModifiers =
        [(''clayey'', 95, ''Optimal temperature and clayey soil excellent for rice cultivation with high water retention''),
         (''black'', 95, ''Optimal temperature and black soil excellent for rice cultivation with high water retention''),
         (''loamy'', 90, ''Optimal temperature and loamy soil good for rice cultivation'')],
      metaGrowthPeriod = ''120-140 days'', metaExpectedYield = ''4-6 tons/hectare'',
      metaWaterRequirement = ''High (1200-1500mm)''\<rparr>"

definition wheatRule :: CropRule where
  "wheatRule =
     \<lparr>cropName = ''Wheat'',
      applicability = (\<lambda>temp soil npk. ge temp 20 \<and> le temp 30),
      baseScore = 80, genericReason = ''Good temperature range for wheat'',
      soilModifiers =
        [(''loamy'', 90, ''Good temperature range and loamy soil ideal for wheat cultivation''),
         (''black'', 90, ''Good temperature range and black soil ideal for wheat cultivation''),
         (''clayey'', 85, ''Good temperature and clayey soil suitable for wheat'')],
      metaGrowthPeriod = ''120-150 days'', metaExpectedYield = ''3-4 tons/hectare'',
      metaWaterRequirement = ''Medium (450-650mm)''\<rparr>"

definition cottonRule :: CropRule where
  "cottonRule =
     \<lparr>cropName = ''Cotton'',
      applicability = (\<lambda>temp soil npk. ge temp 25 \<and> le temp 40 \<and> potassium npk > 40),
      baseScore = 75, genericReason = ''High potassium and warm temperature for cotton'',
      soilModifiers =
        [(''black'', 90, ''High potassium, warm temperature and black soil excellent for cotton cultivation''),
         (''red'', 90, ''High potassium, warm temperature and red soil excellent for cotton cultivation''),
         (''loamy'', 85, ''High potassium, warm temperature and loamy soil good for cotton'')],
      metaGrowthPeriod = ''160-200 days'', metaExpectedYield = ''2-3 tons/hectare'',
      metaWaterRequirement = ''Medium (700-1200mm)''\<rparr>"

definition potatoRule :: CropRule where
  "potatoRule =
     \<lparr>cropName = ''Potato'',
      applicability = (\<lambda>temp soil npk. ge temp 15 \<and> le temp 25),
      baseScore = 70, genericReason = ''Cool temperature suitable for potato'',
      soilModifiers =
        [(''loamy'', 85, ''Cool temperature and loamy soil excellent for potato cultivation with good drainage''),
         (''sandy'', 85, ''Cool temperature and sandy soil excellent for potato cultivation with good drainage''),
         (''red'', 80, ''Cool temperature and red soil good for potato cultivation'')],
      metaGrowthPeriod = ''90-120 days'', metaExpectedYield = ''20-25 tons/hectare'',
      metaWaterRequirement = ''Medium (500-700mm)''\<rparr>"

definition groundnutRule :: CropRule where
  "groundnutRule =
     \<lparr>cropName = ''Groundnut'',
      applicability = (\<lambda>temp soil npk. soil = ''sandy'' \<and> ge temp 20 \<and> le temp 35),
      baseScore = 88,
      genericReason = ''Sandy soil with good drainage perfect for groundnut cultivation'',
      soilModifiers = [],
      metaGrowthPeriod = ''120-130 days'', metaExpectedYield = ''2-3 tons/hectare'',
      metaWaterRequirement = ''Medium (500-700mm)''\<rparr>"

definition milletsRule :: CropRule where
  "milletsRule =
     \<lparr>cropName = ''Millets'',
      applicability = (\<lambda>temp soil npk. soil = ''red'' \<and> ge temp 20 \<and> le temp 30),
      baseScore = 85,
      genericReason = ''Red soil with good mineral content ideal for drought-resistant millets'',
      soilModifiers = [],
      metaGrowthPeriod = ''75-100 days'', metaExpectedYield = ''1-2 tons/hectare'',
      metaWaterRequirement = ''Low (300-500mm)''\<rparr>"

definition cropRuleTable :: "CropRule list" where
  "cropRuleTable = [riceRule, wheatRule, cottonRule, potatoRule, groundnutRule, milletsRule]"

definition resolveRule :: "CropRule \<Rightarrow> string \<Rightarrow> CropSuggestion" where
  "resolveRule rule soil =
     (let (s, r) = (case map_of (soilModifiers rule) soil of
                      Some m \<Rightarrow> m
                    | None \<Rightarrow> (baseScore rule, genericReason rule))
      in \<lparr>name = cropName rule, suitability = s, reason = r,
          growthPeriod = metaGrowthPeriod rule, expectedYield = metaExpectedYield rule,
          waterRequirement = metaWaterRequirement rule\<rparr>)"

definition tableSuggestions :: "number \<Rightarrow> string \<Rightarrow> NPKValues \<Rightarrow> CropSuggestion list" where
  "tableSuggestions temp soil npk =
     map (\<lambda>rule. resolveRule rule soil)
       (filter (\<lambda>rule. applicability rule temp soil npk) cropRuleTable)"

section \<open>Properties\<close>

subsection \<open>The rounding of \<open>parseFloat\<close>\<close>

lemma bitLength_bounds: "0 < n \<Longrightarrow> 2 ^ bitLength n \<le> 2 * n \<and> n < 2 ^ bitLength n"
proof (induction n rule: bitLength.induct)
  case (1 n)
  show ?case
  proof (cases "n div 2 = 0")
    case True
    with 1 have "n = 1" by (simp add: div_eq_0_iff)
    then show ?thesis by (simp add: bitLength.simps)
  next
    case False
    then have "0 < n div 2" by simp
    with 1 have "2 ^ bitLength (n div 2) \<le> 2 * (n div 2) \<and> n div 2 < 2 ^ bitLength (n div 2)"
      by simp
    moreover have "bitLength n = Suc (bitLength (n div 2))"
      using 1(2) by (simp add: bitLength.simps)
    ultimately show ?thesis by auto
  qed
qed

text \<open>
  \<open>floorLog2 N D\<close> is the binary exponent of \<open>N / D\<close>: with \<open>e\<close> for it,
  \<open>2 ^ e \<le> N / D < 2 ^ (e + 1)\<close>, written without fractions.
\<close>

lemma floorLog2_bounds:
  assumes "0 < N" and "0 < D"
  shows "D * 2 ^ nat (floorLog2 N D) \<le> N * 2 ^ nat (- floorLog2 N D)
       \<and> N * 2 ^ nat (- (floorLog2 N D + 1)) < D * 2 ^ nat (floorLog2 N D + 1)"
proof -
  define a where "a = bitLength N"
  define b where "b = bitLength D"
  have N: "2 ^ a \<le> 2 * N" "N < 2 ^ a" and D: "2 ^ b \<le> 2 * D" "D < 2 ^ b"
    using bitLength_bounds assms by (simp_all add: a_def b_def)
  have fl: "floorLog2 N D = floorLog2From N D (int a - int b)"
    by (simp add: floorLog2_def a_def b_def)
  show ?thesis
  proof (cases "b \<le> a")
    case True
    define d where "d = a - b"
    have a: "a = b + d" using True by (simp add: d_def)
    have k: "int a - int b = int d" by (simp add: a)
    have pa: "(2::nat) ^ a = 2 ^ b * 2 ^ d" by (simp add: a power_add)
    show ?thesis
    proof (cases "D * 2 ^ d \<le> N")
      case yes: True
      then have e: "floorLog2 N D = int d"
        by (simp add: fl k floorLog2From_def)
      have "2 ^ b * 2 ^ d \<le> 2 * D * 2 ^ d"
        using D(1) by (rule mult_le_mono1)
      then have "N < 2 * D * 2 ^ d"
        using N(2) pa by linarith
      then show ?thesis
        using yes by (simp add: e nat_add_distrib)
    next
      case no: False
      then have e: "floorLog2 N D = int d - 1"
        by (simp add: fl k floorLog2From_def)
      show ?thesis
      proof (cases d)
        case 0
        then have "D \<le> 2 * N" using N(1) D(2) pa by simp
        then show ?thesis using no 0 by (simp add: e)
      next
        case (Suc d')
        have "2 * (D * 2 ^ d') < 2 ^ b * 2 ^ d" using D(2) Suc by simp
        then have "D * 2 ^ d' \<le> N" using N(1) pa by simp
        then show ?thesis using no Suc by (simp add: e nat_add_distrib)
      qed
    qed
  next
    case False
    define d where "d = b - a"
    have b: "b = a + d" and d: "0 < d" using False by (simp_all add: d_def)
    have k: "int a - int b = - int d" by (simp add: b)
    have pb: "(2::nat) ^ b = 2 ^ a * 2 ^ d" by (simp add: b power_add)
    obtain d' where d': "d = Suc d'" using d by (cases d) auto
    show ?thesis
    proof (cases "D \<le> N * 2 ^ d")
      case yes: True
      then have e: "floorLog2 N D = - int d"
        using d by (simp add: fl k floorLog2From_def)
      have "2 * (N * 2 ^ d') < 2 ^ a * 2 ^ d" using N(2) d' by simp
      then have "N * 2 ^ d' < D" using D(1) pb by simp
      then show ?thesis using yes d' by (simp add: e nat_add_distrib)
    next
      case no: False
      then have e: "floorLog2 N D = - int d - 1"
        using d by (simp add: fl k floorLog2From_def)
      have "2 ^ a * 2 ^ d \<le> 2 * N * 2 ^ d"
        using N(1) by (rule mult_le_mono1)
      then have "D < 2 * N * 2 ^ d"
        using D(2) pb by linarith
      then show ?thesis using no d' by (simp add: e nat_add_distrib)
    qed
  qed
qed

text \<open>\<open>roundQuotient num den\<close> is an integer nearest to \<open>num / den\<close>.\<close>

lemma roundQuotient_nearest:
  assumes "0 < den"
  shows "2 * \<bar>int (roundQuotient num den) * int den - int num\<bar> \<le> int den"
proof -
  define q where "q = num div den"
  define r where "r = num mod den"
  have num: "int num = int q * int den + int r"
    unfolding q_def r_def by (metis div_mult_mod_eq of_nat_add of_nat_mult)
  have r: "r < den"
    unfolding r_def using assms by simp
  have "2 * \<bar>int (tiesToEven q r den) * int den - int num\<bar> \<le> int den"
    unfolding num tiesToEven_def using r by (auto simp: algebra_simps)
  then show ?thesis
    by (simp add: roundQuotient_def q_def r_def)
qed

lemmas parse_defs =
  parseFloat_def readSign_def readExponent_def isAsciiWhiteSpace_def isWhiteSpace2_def
  isWhiteSpace3_def isDigit_def digitsValue_def

lemmas round_defs =
  decimalToDouble_def roundToDouble_def roundAt_def toDouble_def roundQuotient_def
  tiesToEven_def floorLog2_def floorLog2From_def scale2_def bitLength.simps

lemma parseFloat_28: "parseFloat ''28'' = Finite 28"
  by (simp add: parse_defs, simp add: round_defs)

lemma parseFloat_22: "parseFloat ''22'' = Finite 22"
  by (simp add: parse_defs, simp add: round_defs)

lemma parseFloat_45: "parseFloat ''45'' = Finite 45"
  by (simp add: parse_defs, simp add: round_defs)

text \<open>
  Rounding at work: one tenth, two strings next to thresholds of the rules, overflow and
  underflow.
\<close>

lemma parseFloat_tenth:
  "parseFloat ''0.1'' = Finite (3602879701896397 / 36028797018963968)"
  by (simp add: parse_defs, simp add: round_defs)

lemma parseFloat_above_40: "parseFloat ''40.000000000000000001'' = Finite 40"
  by (simp add: parse_defs, simp add: round_defs)

lemma parseFloat_below_20: "parseFloat ''19.99999999999999999999'' = Finite 20"
  by (simp add: parse_defs, simp add: round_defs)

lemma parseFloat_overflow: "parseFloat ''1e309'' = PosInfinity"
  by (simp add: parse_defs, simp add: round_defs)

lemma parseFloat_underflow: "parseFloat ''2e-324'' = Finite 0"
  by (simp add: parse_defs, simp add: round_defs)

subsection \<open>Auxiliary facts\<close>

lemma generateRecommendations_valid:
  "valid st \<Longrightarrow> generateRecommendations st = analysis (st\<lparr>loading := True\<rparr>)"
  by (auto simp: valid_def generateRecommendations_def)

lemma cropsOf_valid:
  "valid st \<Longrightarrow> cropsOf (generateRecommendations st) =
     arraySort bySuitability
       (cropSuggestions (parseFloat (temperature st)) (soilType st) (npkValues st))"
  by (simp add: generateRecommendations_valid analysis_def cropsOf_def Let_def)

lemma fertilizersOf_valid:
  "valid st \<Longrightarrow>
   fertilizersOf (generateRecommendations st) = fertilizerSuggestions (npkValues st)"
  by (simp add: generateRecommendations_valid analysis_def fertilizersOf_def Let_def)

lemma valid_formInput:
  "valid (formInput t soil n p k) \<longleftrightarrow>
     t \<noteq> [] \<and> t \<noteq> ''0'' \<and> soil \<noteq> [] \<and> \<not> (n = 0 \<and> p = 0 \<and> k = 0)"
  by (simp add: valid_def formInput_def)

lemma set_sortInsert: "set (sortInsert cmp x xs) = insert x (set xs)"
  by (induction xs) auto

lemma set_arraySort: "set (arraySort cmp xs) = set xs"
  by (induction xs) (auto simp: set_sortInsert)

lemma sorted_sortInsert:
  "sorted_wrt (\<lambda>a b. suitability b \<le> suitability a) xs \<Longrightarrow>
   sorted_wrt (\<lambda>a b. suitability b \<le> suitability a) (sortInsert bySuitability x xs)"
  by (induction xs) (auto simp: set_sortInsert bySuitability_def)

lemma sorted_arraySort:
  "sorted_wrt (\<lambda>a b. suitability b \<le> suitability a) (arraySort bySuitability xs)"
  by (induction xs) (auto simp: sorted_sortInsert)

lemma stable_sortInsert:
  assumes "sorted_wrt (\<lambda>a b. suitability a = suitability b \<longrightarrow> R a b) xs"
    and "\<forall>y \<in> set xs. R x y"
  shows "sorted_wrt (\<lambda>a b. suitability a = suitability b \<longrightarrow> R a b)
           (sortInsert bySuitability x xs)"
  using assms by (induction xs) (auto simp: set_sortInsert bySuitability_def)

lemma stable_arraySort:
  "sorted_wrt R xs \<Longrightarrow>
   sorted_wrt (\<lambda>a b. suitability a = suitability b \<longrightarrow> R a b) (arraySort bySuitability xs)"
proof (induction xs)
  case Nil
  show ?case by simp
next
  case (Cons x xs)
  then show ?case by (auto intro!: stable_sortInsert simp: set_arraySort)
qed

subsection \<open>The scenario with black soil\<close>

text \<open>
  Claim C1, as the code has it: for temperature 28, black soil and NPK 45/35/50 the result
  holds exactly three crops, each with a reason that names the black soil: Rice with score
  95, Wheat with score 90 and Cotton with score 90, in this order (Wheat and Cotton tie and
  keep the order of their rules).
\<close>

theorem black_soil_scenario:
  "cropsOf (generateRecommendations (formInput ''28'' ''black'' 45 35 50)) =
     [\<lparr>name = ''Rice'', suitability = 95,
       reason = ''Optimal temperature and black soil excellent for rice cultivation with high water retention'',
       growthPeriod = ''120-140 days'', expectedYield = ''4-6 tons/hectare'',
       waterRequirement = ''High (1200-1500mm)''\<rparr>,
      \<lparr>name = ''Wheat'', suitability = 90,
       reason = ''Good temperature range and black soil ideal for wheat cultivation'',
       growthPeriod = ''120-150 days'', expectedYield = ''3-4 tons/hectare'',
       waterRequirement = ''Medium (450-650mm)''\<rparr>,
      \<lparr>name = ''Cotton'', suitability = 90,
       reason = ''High potassium, warm temperature and black soil excellent for cotton cultivation'',
       growthPeriod = ''160-200 days'', expectedYield = ''2-3 tons/hectare'',
       waterRequirement = ''Medium (700-1200mm)''\<rparr>]
   \<and> list_all (sublist ''black'')
        (map reason (cropsOf (generateRecommendations (formInput ''28'' ''black'' 45 35 50))))"
  by (simp add: cropsOf_valid valid_def formInput_def parseFloat_28 cropSuggestions_def
      bySuitability_def sublist_Cons_right prefix_Cons)

text \<open>
  Claim C1 as the specification states it fails at this input: no suggestion is Wheat with
  score 85, and the order of the names is not Rice, Cotton, Wheat.
\<close>

theorem black_soil_scenario_as_stated_fails:
  "(''Wheat'', 85) \<notin>
     set (map nameScore (cropsOf (generateRecommendations (formInput ''28'' ''black'' 45 35 50))))
   \<and> map name (cropsOf (generateRecommendations (formInput ''28'' ''black'' 45 35 50)))
       \<noteq> [''Rice'', ''Cotton'', ''Wheat'']"
  by (simp add: cropsOf_valid valid_def formInput_def parseFloat_28 cropSuggestions_def
      bySuitability_def nameScore_def)

subsection \<open>The fertilizer sequence\<close>

text \<open>
  Claim C2: for every input that passes validation the fertilizer sequence is the Urea
  entry if nitrogen is below 50, then the DAP entry if phosphorus is below 40, then the
  Muriate of Potash entry if potassium is below 45, then the Vermicompost entry. So it is
  never empty, its last element is the organic entry, the organic entry is alone when no
  nutrient is below its threshold, and NPK 30/25/20 gives all four entries in this order.
\<close>

theorem fertilizer_sequence:
  assumes "valid st"
  shows "fertilizersOf (generateRecommendations st) =
           (if nitrogen (npkValues st) < 50 then [ureaEntry] else []) @
           (if phosphorus (npkValues st) < 40 then [dapEntry] else []) @
           (if potassium (npkValues st) < 45 then [potashEntry] else []) @ [organicEntry]
         \<and> fertilizersOf (generateRecommendations st) \<noteq> []
         \<and> last (fertilizersOf (generateRecommendations st)) = organicEntry
         \<and> (50 \<le> nitrogen (npkValues st) \<and> 40 \<le> phosphorus (npkValues st)
              \<and> 45 \<le> potassium (npkValues st)
            \<longrightarrow> fertilizersOf (generateRecommendations st) = [organicEntry])
         \<and> (nitrogen (npkValues st) = 30 \<and> phosphorus (npkValues st) = 25
              \<and> potassium (npkValues st) = 20
            \<longrightarrow> fertilizersOf (generateRecommendations st)
                  = [ureaEntry, dapEntry, potashEntry, organicEntry])"
proof -
  have seq: "fertilizersOf (generateRecommendations st) =
           (if nitrogen (npkValues st) < 50 then [ureaEntry] else []) @
           (if phosphorus (npkValues st) < 40 then [dapEntry] else []) @
           (if potassium (npkValues st) < 45 then [potashEntry] else []) @ [organicEntry]"
    using assms
    by (simp add: fertilizersOf_valid fertilizerSuggestions_def ureaEntry_def dapEntry_def
        potashEntry_def organicEntry_def)
  show ?thesis
    unfolding seq by simp
qed

theorem fertilizer_sequence_witness:
  "valid (formInput ''28'' ''black'' 30 25 20)
   \<and> fertilizersOf (generateRecommendations (formInput ''28'' ''black'' 30 25 20))
       = [ureaEntry, dapEntry, potashEntry, organicEntry]
   \<and> valid (formInput ''28'' ''black'' 60 50 45)
   \<and> fertilizersOf (generateRecommendations (formInput ''28'' ''black'' 60 50 45))
       = [organicEntry]"
proof -
  have h1: "valid (formInput ''28'' ''black'' 30 25 20)"
    by (simp add: valid_formInput)
  have h2: "valid (formInput ''28'' ''black'' 60 50 45)"
    by (simp add: valid_formInput)
  show ?thesis
    using h1 h2 fertilizer_sequence [OF h1] fertilizer_sequence [OF h2]
    by (simp add: formInput_def)
qed

subsection \<open>Validation\<close>

text \<open>
  Claim C3: the handler checks the temperature first, then the soil type, then the NPK
  values, and returns at the first check that fails with exactly one error toast and the
  state as it was, so that no crop or fertilizer is computed or stored. An input without
  temperature and with all NPK values zero gets the temperature error only.
\<close>

theorem validation_order:
  "((temperature st = [] \<or> temperature st = ''0'') \<longrightarrow>
      generateRecommendations st = ([ToastError ''Please enter the current temperature''], st))
   \<and> (temperature st \<noteq> [] \<and> temperature st \<noteq> ''0'' \<and> soilType st = [] \<longrightarrow>
      generateRecommendations st = ([ToastError ''Please select the soil type''], st))
   \<and> (temperature st \<noteq> [] \<and> temperature st \<noteq> ''0'' \<and> soilType st \<noteq> []
        \<and> nitrogen (npkValues st) = 0 \<and> phosphorus (npkValues st) = 0
        \<and> potassium (npkValues st) = 0 \<longrightarrow>
      generateRecommendations st = ([ToastError ''Please enter NPK values''], st))
   \<and> (temperature st = [] \<and> nitrogen (npkValues st) = 0 \<and> phosphorus (npkValues st) = 0
        \<and> potassium (npkValues st) = 0 \<longrightarrow>
      fst (generateRecommendations st) = [ToastError ''Please enter the current temperature'']
      \<and> ToastError ''Please enter NPK values'' \<notin> set (fst (generateRecommendations st)))
   \<and> (\<not> valid st \<longrightarrow>
      length (fst (generateRecommendations st)) = 1 \<and> snd (generateRecommendations st) = st)"
  by (simp add: generateRecommendations_def valid_def)

theorem validation_order_witness:
  "generateRecommendations (formInput [] ''black'' 0 0 0) =
     ([ToastError ''Please enter the current temperature''], formInput [] ''black'' 0 0 0)
   \<and> generateRecommendations (formInput ''28'' [] 45 35 50) =
     ([ToastError ''Please select the soil type''], formInput ''28'' [] 45 35 50)
   \<and> generateRecommendations (formInput ''28'' ''black'' 0 0 0) =
     ([ToastError ''Please enter NPK values''], formInput ''28'' ''black'' 0 0 0)
   \<and> \<not> valid (formInput [] ''black'' 0 0 0)
   \<and> cropsOf (generateRecommendations (formInput [] ''black'' 0 0 0)) = []
   \<and> fertilizersOf (generateRecommendations (formInput [] ''black'' 0 0 0)) = []"
proof -
  have a: "generateRecommendations (formInput [] ''black'' 0 0 0) =
     ([ToastError ''Please enter the current temperature''], formInput [] ''black'' 0 0 0)"
    using validation_order [of "formInput [] ''black'' 0 0 0"] by (simp add: formInput_def)
  have b: "generateRecommendations (formInput ''28'' [] 45 35 50) =
     ([ToastError ''Please select the soil type''], formInput ''28'' [] 45 35 50)"
    using validation_order [of "formInput ''28'' [] 45 35 50"] by (simp add: formInput_def)
  have c: "generateRecommendations (formInput ''28'' ''black'' 0 0 0) =
     ([ToastError ''Please enter NPK values''], formInput ''28'' ''black'' 0 0 0)"
    using validation_order [of "formInput ''28'' ''black'' 0 0 0"] by (simp add: formInput_def)
  show ?thesis
    unfolding a b c by (simp add: valid_def cropsOf_def fertilizersOf_def formInput_def)
qed

subsection \<open>Ranking\<close>

text \<open>
  Claim C4: for every input that passes validation the crop suggestions are sorted by
  score, non-increasingly: each suggestion's score is at least the score of the next one.
\<close>

theorem crops_sorted:
  assumes "valid st"
  shows "\<forall>i. Suc i < length (cropsOf (generateRecommendations st)) \<longrightarrow>
           suitability (cropsOf (generateRecommendations st) ! Suc i)
             \<le> suitability (cropsOf (generateRecommendations st) ! i)"
proof -
  let ?cs = "cropsOf (generateRecommendations st)"
  have "sorted_wrt (\<lambda>a b. suitability b \<le> suitability a) ?cs"
    using assms by (simp add: cropsOf_valid sorted_arraySort)
  then show ?thesis
    by (auto simp: sorted_wrt_iff_nth_less)
qed

theorem crops_sorted_witness:
  "valid (formInput ''28'' ''black'' 45 35 50)
   \<and> Suc 0 < length (cropsOf (generateRecommendations (formInput ''28'' ''black'' 45 35 50)))
   \<and> suitability (cropsOf (generateRecommendations (formInput ''28'' ''black'' 45 35 50)) ! Suc 0)
       \<le> suitability (cropsOf (generateRecommendations (formInput ''28'' ''black'' 45 35 50)) ! 0)"
proof -
  have h: "valid (formInput ''28'' ''black'' 45 35 50)"
    by (simp add: valid_formInput)
  have l: "Suc 0 < length (cropsOf (generateRecommendations (formInput ''28'' ''black'' 45 35 50)))"
    by (simp add: cropsOf_valid valid_def formInput_def parseFloat_28 cropSuggestions_def
        bySuitability_def)
  show ?thesis
    using h l crops_sorted [OF h] by blast
qed

subsection \<open>Ties\<close>

lemma names_cropSuggestions:
  "map name (cropSuggestions temp soil npk) =
     (if ge temp 25 \<and> le temp 35 then [''Rice''] else []) @
     (if ge temp 20 \<and> le temp 30 then [''Wheat''] else []) @
     (if ge temp 25 \<and> le temp 40 \<and> potassium npk > 40 then [''Cotton''] else []) @
     (if ge temp 15 \<and> le temp 25 then [''Potato''] else []) @
     (if soil = ''sandy'' \<and> ge temp 20 \<and> le temp 35 then [''Groundnut''] else []) @
     (if soil = ''red'' \<and> ge temp 20 \<and> le temp 30 then [''Millets''] else [])"
  by (simp add: cropSuggestions_def split_def)

lemma rulePos_values:
  "rulePos ''Rice'' = 0" "rulePos ''Wheat'' = 1" "rulePos ''Cotton'' = 2"
  "rulePos ''Potato'' = 3" "rulePos ''Groundnut'' = 4" "rulePos ''Millets'' = 5"
  by (simp_all add: rulePos_def ruleOrder_def)

lemma sorted_wrt_optional:
  "sorted_wrt R ((if c then [x] else []) @ ys) = ((c \<longrightarrow> (\<forall>y \<in> set ys. R x y)) \<and> sorted_wrt R ys)"
  "sorted_wrt R (if c then [x] else []) = True"
  by simp_all

lemma ball_optional:
  "(\<forall>y \<in> set ((if c then [x] else []) @ ys). P y) = ((c \<longrightarrow> P x) \<and> (\<forall>y \<in> set ys. P y))"
  "(\<forall>y \<in> set (if c then [x] else []). P y) = (c \<longrightarrow> P x)"
  by (cases c; simp)+

lemma pushed_in_rule_order:
  "sorted_wrt (\<lambda>a b. rulePos (name a) < rulePos (name b)) (cropSuggestions temp soil npk)"
proof -
  have "sorted_wrt (\<lambda>a b. rulePos a < rulePos b) (map name (cropSuggestions temp soil npk))"
    unfolding names_cropSuggestions
    by (simp only: sorted_wrt_optional ball_optional rulePos_values) simp
  then show ?thesis
    by (simp add: sorted_wrt_map)
qed

lemma pushed_names_in_table:
  "\<forall>n \<in> set (map name (cropSuggestions temp soil npk)). n \<in> set ruleOrder"
  unfolding names_cropSuggestions
  by (simp only: ball_optional) (simp add: ruleOrder_def)

text \<open>
  Claim C5: for every input that passes validation, two suggestions of the result with
  equal scores stand in the order of their rules (Rice, Wheat, Cotton, Potato, Groundnut,
  Millets): the ranking is stable. Every suggestion carries the name of one of these rules.
\<close>

theorem ties_keep_rule_order:
  assumes "valid st"
  shows "(\<forall>i j. i < j \<and> j < length (cropsOf (generateRecommendations st))
            \<and> suitability (cropsOf (generateRecommendations st) ! i)
                = suitability (cropsOf (generateRecommendations st) ! j)
          \<longrightarrow> rulePos (name (cropsOf (generateRecommendations st) ! i))
                < rulePos (name (cropsOf (generateRecommendations st) ! j)))
         \<and> (\<forall>c \<in> set (cropsOf (generateRecommendations st)). name c \<in> set ruleOrder)"
proof -
  let ?pushed = "cropSuggestions (parseFloat (temperature st)) (soilType st) (npkValues st)"
  let ?cs = "cropsOf (generateRecommendations st)"
  have cs: "?cs = arraySort bySuitability ?pushed"
    using assms by (rule cropsOf_valid)
  have "sorted_wrt (\<lambda>a b. suitability a = suitability b
          \<longrightarrow> rulePos (name a) < rulePos (name b)) ?cs"
    unfolding cs by (rule stable_arraySort [OF pushed_in_rule_order])
  then have ties: "\<forall>i j. i < j \<and> j < length ?cs \<and> suitability (?cs ! i) = suitability (?cs ! j)
      \<longrightarrow> rulePos (name (?cs ! i)) < rulePos (name (?cs ! j))"
    by (simp add: sorted_wrt_iff_nth_less)
  have "\<forall>c \<in> set ?cs. name c \<in> set ruleOrder"
    using pushed_names_in_table [of "parseFloat (temperature st)" "soilType st" "npkValues st"]
    unfolding cs by (simp add: set_arraySort)
  with ties show ?thesis by blast
qed

theorem ties_keep_rule_order_witness:
  "valid (formInput ''28'' ''black'' 45 35 50)
   \<and> map nameScore (cropsOf (generateRecommendations (formInput ''28'' ''black'' 45 35 50)))
       = [(''Rice'', 95), (''Wheat'', 90), (''Cotton'', 90)]
   \<and> rulePos (name (cropsOf (generateRecommendations (formInput ''28'' ''black'' 45 35 50)) ! 1))
       < rulePos (name (cropsOf (generateRecommendations (formInput ''28'' ''black'' 45 35 50)) ! 2))"
proof -
  let ?cs = "cropsOf (generateRecommendations (formInput ''28'' ''black'' 45 35 50))"
  have h: "valid (formInput ''28'' ''black'' 45 35 50)"
    by (simp add: valid_formInput)
  have cs: "map nameScore ?cs = [(''Rice'', 95), (''Wheat'', 90), (''Cotton'', 90)]"
    by (simp add: cropsOf_valid valid_def formInput_def parseFloat_28 cropSuggestions_def
        bySuitability_def nameScore_def)
  have l: "length ?cs = 3"
    using arg_cong [OF cs, of length] by simp
  have "map nameScore ?cs ! 1 = (''Wheat'', 90)" "map nameScore ?cs ! 2 = (''Cotton'', 90)"
    unfolding cs by simp_all
  then have e: "suitability (?cs ! 1) = suitability (?cs ! 2)"
    using l by (simp add: nameScore_def)
  have "(1::nat) < 2 \<and> 2 < length ?cs \<and> suitability (?cs ! 1) = suitability (?cs ! 2)"
    using l e by simp
  then have "rulePos (name (?cs ! 1)) < rulePos (name (?cs ! 2))"
    using ties_keep_rule_order [OF h] by blast
  with h cs show ?thesis by blast
qed

subsection \<open>The groundnut rule on sandy soil\<close>

text \<open>
  Claim C6: for every input that passes validation with sandy soil and a temperature from
  20 to 35, the Groundnut suggestion with score 88 is in the result, whatever the NPK
  values are, and so is every other suggestion that a rule pushed. At temperature 22 the
  result is Groundnut (88), Potato (85) and Wheat (80), whatever the NPK values are.
\<close>

theorem groundnut_on_sandy:
  assumes "valid st" and "soilType st = ''sandy''"
  shows "(ge (parseFloat (temperature st)) 20 \<and> le (parseFloat (temperature st)) 35
            \<longrightarrow> groundnutEntry \<in> set (cropsOf (generateRecommendations st)))
         \<and> (temperature st = ''22''
            \<longrightarrow> groundnutEntry \<in> set (cropsOf (generateRecommendations st))
                \<and> map nameScore (cropsOf (generateRecommendations st))
                    = [(''Groundnut'', 88), (''Potato'', 85), (''Wheat'', 80)])
         \<and> set (cropsOf (generateRecommendations st))
             = set (cropSuggestions (parseFloat (temperature st)) (soilType st) (npkValues st))"
proof -
  let ?temp = "parseFloat (temperature st)"
  let ?cs = "cropsOf (generateRecommendations st)"
  have cs: "?cs = arraySort bySuitability (cropSuggestions ?temp ''sandy'' (npkValues st))"
    using assms by (simp add: cropsOf_valid)
  have general: "groundnutEntry \<in> set ?cs" if "ge ?temp 20 \<and> le ?temp 35"
    unfolding cs using that
    by (simp add: set_arraySort cropSuggestions_def groundnutEntry_def)
  have at22: "map nameScore ?cs = [(''Groundnut'', 88), (''Potato'', 85), (''Wheat'', 80)]"
    if "temperature st = ''22''"
    unfolding cs using that
    by (simp add: parseFloat_22 cropSuggestions_def bySuitability_def nameScore_def)
  have pushed: "set ?cs = set (cropSuggestions ?temp (soilType st) (npkValues st))"
    using assms by (simp add: cropsOf_valid set_arraySort)
  have in22: "groundnutEntry \<in> set ?cs" if "temperature st = ''22''"
    using general that by (simp add: parseFloat_22)
  show ?thesis
    using general in22 at22 pushed by blast
qed

theorem groundnut_on_sandy_witness:
  "valid (formInput ''22'' ''sandy'' 45 35 50)
   \<and> soilType (formInput ''22'' ''sandy'' 45 35 50) = ''sandy''
   \<and> ge (parseFloat ''22'') 20 \<and> le (parseFloat ''22'') 35
   \<and> groundnutEntry \<in> set (cropsOf (generateRecommendations (formInput ''22'' ''sandy'' 45 35 50)))
   \<and> map nameScore (cropsOf (generateRecommendations (formInput ''22'' ''sandy'' 45 35 50)))
       = [(''Groundnut'', 88), (''Potato'', 85), (''Wheat'', 80)]"
proof -
  have h: "valid (formInput ''22'' ''sandy'' 45 35 50)"
    by (simp add: valid_formInput)
  have s: "soilType (formInput ''22'' ''sandy'' 45 35 50) = ''sandy''"
    by (simp add: formInput_def)
  have t: "temperature (formInput ''22'' ''sandy'' 45 35 50) = ''22''"
    by (simp add: formInput_def)
  have r: "ge (parseFloat ''22'') 20 \<and> le (parseFloat ''22'') 35"
    by (simp add: parseFloat_22)
  show ?thesis
    using h s r groundnut_on_sandy [OF h s] unfolding t by blast
qed

subsection \<open>Scores and reasons by soil\<close>

lemma rice_chunk:
  "(if applicability riceRule temp soil npk then [resolveRule riceRule soil] else []) =
   (if ge temp 25 \<and> le temp 35 then
        (let (s, r) =
           (if soil = ''clayey'' \<or> soil = ''black'' then
              (95, ''Optimal temperature and '' @ soil @ '' soil excellent for rice cultivation with high water retention'')
            else if soil = ''loamy'' then
              (90, ''Optimal temperature and loamy soil good for rice cultivation'')
            else (85, ''Optimal temperature for rice cultivation''))
         in [\<lparr>name = ''Rice'', suitability = s, reason = r,
               growthPeriod = ''120-140 days'', expectedYield = ''4-6 tons/hectare'',
               waterRequirement = ''High (1200-1500mm)''\<rparr>])
      else [])"
  by (cases "soil = ''clayey''"; cases "soil = ''black''"; cases "soil = ''loamy''")
     (auto simp: riceRule_def resolveRule_def)

lemma wheat_chunk:
  "(if applicability wheatRule temp soil npk then [resolveRule wheatRule soil] else []) =
   (if ge temp 20 \<and> le temp 30 then
        (let (s, r) =
           (if soil = ''loamy'' \<or> soil = ''black'' then
              (90, ''Good temperature range and '' @ soil @ '' soil ideal for wheat cultivation'')
            else if soil = ''clayey'' then
              (85, ''Good temperature and clayey soil suitable for wheat'')
            else (80, ''Good temperature range for wheat''))
         in [\<lparr>name = ''Wheat'', suitability = s, reason = r,
               growthPeriod = ''120-150 days'', expectedYield = ''3-4 tons/hectare'',
               waterRequirement = ''Medium (450-650mm)''\<rparr>])
      else [])"
  by (cases "soil = ''clayey''"; cases "soil = ''black''"; cases "soil = ''loamy''")
     (auto simp: wheatRule_def resolveRule_def)

lemma cotton_chunk:
  "(if applicability cottonRule temp soil npk then [resolveRule cottonRule soil] else []) =
   (if ge temp 25 \<and> le temp 40 \<and> potassium npk > 40 then
        (let (s, r) =
           (if soil = ''black'' \<or> soil = ''red'' then
              (90, ''High potassium, warm temperature and '' @ soil @ '' soil excellent for cotton cultivation'')
            else if soil = ''loamy'' then
              (85, ''High potassium, warm temperature and loamy soil good for cotton'')
            else (75, ''High potassium and warm temperature for cotton''))
         in [\<lparr>name = ''Cotton'', suitability = s, reason = r,
               growthPeriod = ''160-200 days'', expectedYield = ''2-3 tons/hectare'',
               waterRequirement = ''Medium (700-1200mm)''\<rparr>])
      else [])"
  by (cases "soil = ''red''"; cases "soil = ''black''"; cases "soil = ''loamy''")
     (auto simp: cottonRule_def resolveRule_def)

lemma potato_chunk:
  "(if applicability potatoRule temp soil npk then [resolveRule potatoRule soil] else []) =
   (if ge temp 15 \<and> le temp 25 then
        (let (s, r) =
           (if soil = ''loamy'' \<or> soil = ''sandy'' then
              (85, ''Cool temperature and '' @ soil @ '' soil excellent for potato cultivation with good drainage'')
            else if soil = ''red'' then
              (80, ''Cool temperature and red soil good for potato cultivation'')
            else (70, ''Cool temperature suitable for potato''))
         in [\<lparr>name = ''Potato'', suitability = s, reason = r,
               growthPeriod = ''90-120 days'', expectedYield = ''20-25 tons/hectare'',
               waterRequirement = ''Medium (500-700mm)''\<rparr>])
      else [])"
  by (cases "soil = ''red''"; cases "soil = ''sandy''"; cases "soil = ''loamy''")
     (auto simp: potatoRule_def resolveRule_def)

lemma groundnut_chunk:
  "(if applicability groundnutRule temp soil npk then [resolveRule groundnutRule soil] else []) =
   (if soil = ''sandy'' \<and> ge temp 20 \<and> le temp 35 then
        [\<lparr>name = ''Groundnut'', suitability = 88,
          reason = ''Sandy soil with good drainage perfect for groundnut cultivation'',
          growthPeriod = ''120-130 days'', expectedYield = ''2-3 tons/hectare'',
          waterRequirement = ''Medium (500-700mm)''\<rparr>]
      else [])"
  by (simp add: groundnutRule_def resolveRule_def)

lemma millets_chunk:
  "(if applicability milletsRule temp soil npk then [resolveRule milletsRule soil] else []) =
   (if soil = ''red'' \<and> ge temp 20 \<and> le temp 30 then
        [\<lparr>name = ''Millets'', suitability = 85,
          reason = ''Red soil with good mineral content ideal for drought-resistant millets'',
          growthPeriod = ''75-100 days'', expectedYield = ''1-2 tons/hectare'',
          waterRequirement = ''Low (300-500mm)''\<rparr>]
      else [])"
  by (simp add: milletsRule_def resolveRule_def)

lemma tableSuggestions_split:
  "tableSuggestions temp soil npk =
     (if applicability riceRule temp soil npk then [resolveRule riceRule soil] else []) @
     (if applicability wheatRule temp soil npk then [resolveRule wheatRule soil] else []) @
     (if applicability cottonRule temp soil npk then [resolveRule cottonRule soil] else []) @
     (if applicability potatoRule temp soil npk then [resolveRule potatoRule soil] else []) @
     (if applicability groundnutRule temp soil npk then [resolveRule groundnutRule soil] else []) @
     (if applicability milletsRule temp soil npk then [resolveRule milletsRule soil] else [])"
  by (simp add: tableSuggestions_def cropRuleTable_def)

lemma cropSuggestions_table: "cropSuggestions temp soil npk = tableSuggestions temp soil npk"
  by (simp only: tableSuggestions_split rice_chunk wheat_chunk cotton_chunk potato_chunk
      groundnut_chunk millets_chunk cropSuggestions_def)

lemma modifier_names_soil:
  assumes "rule \<in> set cropRuleTable" and "map_of (soilModifiers rule) soil = Some (score, txt)"
  shows "sublist soil txt"
proof -
  have rule: "rule = riceRule \<or> rule = wheatRule \<or> rule = cottonRule \<or> rule = potatoRule
      \<or> rule = groundnutRule \<or> rule = milletsRule"
    using assms(1) by (simp add: cropRuleTable_def)
  have "sublist soil txt" if "map_of (soilModifiers riceRule) soil = Some (score, txt)"
    using that by (auto simp: riceRule_def sublist_Cons_right prefix_Cons split: if_splits)
  moreover have "sublist soil txt" if "map_of (soilModifiers wheatRule) soil = Some (score, txt)"
    using that by (auto simp: wheatRule_def sublist_Cons_right prefix_Cons split: if_splits)
  moreover have "sublist soil txt" if "map_of (soilModifiers cottonRule) soil = Some (score, txt)"
    using that by (auto simp: cottonRule_def sublist_Cons_right prefix_Cons split: if_splits)
  moreover have "sublist soil txt" if "map_of (soilModifiers potatoRule) soil = Some (score, txt)"
    using that by (auto simp: potatoRule_def sublist_Cons_right prefix_Cons split: if_splits)
  moreover have "map_of (soilModifiers groundnutRule) soil = None"
    "map_of (soilModifiers milletsRule) soil = None"
    by (simp_all add: groundnutRule_def milletsRule_def)
  ultimately show ?thesis
    using rule assms(2) by auto
qed

text \<open>
  Claim C7: for every input that passes validation, the result is the ranked list of the
  suggestions that the rule table yields, so every rule that fires has its suggestion in
  the result; when the rule's soil modifiers have an entry for the input's soil type, the
  suggestion carries that entry's score and reason, and the reason names the soil type;
  otherwise it carries the rule's base score and generic reason. In particular Rice on
  sandy or red soil has score 85 and the generic reason.
\<close>

theorem soil_modifier_resolution:
  assumes "valid st"
  shows "cropsOf (generateRecommendations st) =
           arraySort bySuitability
             (tableSuggestions (parseFloat (temperature st)) (soilType st) (npkValues st))
         \<and> (\<forall>rule \<in> set cropRuleTable.
              applicability rule (parseFloat (temperature st)) (soilType st) (npkValues st) \<longrightarrow>
                resolveRule rule (soilType st) \<in> set (cropsOf (generateRecommendations st))
                \<and> name (resolveRule rule (soilType st)) = cropName rule
                \<and> (case map_of (soilModifiers rule) (soilType st) of
                     Some (score, txt) \<Rightarrow>
                       suitability (resolveRule rule (soilType st)) = score
                       \<and> reason (resolveRule rule (soilType st)) = txt
                       \<and> sublist (soilType st) txt
                   | None \<Rightarrow>
                       suitability (resolveRule rule (soilType st)) = baseScore rule
                       \<and> reason (resolveRule rule (soilType st)) = genericReason rule))
         \<and> ((soilType st = ''sandy'' \<or> soilType st = ''red'')
              \<and> ge (parseFloat (temperature st)) 25 \<and> le (parseFloat (temperature st)) 35 \<longrightarrow>
             (\<exists>c \<in> set (cropsOf (generateRecommendations st)).
                name c = ''Rice'' \<and> suitability c = 85
                \<and> reason c = ''Optimal temperature for rice cultivation''))"
proof -
  let ?temp = "parseFloat (temperature st)"
  let ?soil = "soilType st"
  let ?npk = "npkValues st"
  let ?cs = "cropsOf (generateRecommendations st)"
  have cs: "?cs = arraySort bySuitability (tableSuggestions ?temp ?soil ?npk)"
    using assms by (simp add: cropsOf_valid cropSuggestions_table)
  have fired: "resolveRule rule ?soil \<in> set ?cs"
    if "rule \<in> set cropRuleTable" and "applicability rule ?temp ?soil ?npk" for rule
    unfolding cs using that by (simp add: set_arraySort tableSuggestions_def)
  have resolved: "name (resolveRule rule ?soil) = cropName rule
      \<and> (case map_of (soilModifiers rule) ?soil of
           Some (score, txt) \<Rightarrow>
             suitability (resolveRule rule ?soil) = score
             \<and> reason (resolveRule rule ?soil) = txt \<and> sublist ?soil txt
         | None \<Rightarrow>
             suitability (resolveRule rule ?soil) = baseScore rule
             \<and> reason (resolveRule rule ?soil) = genericReason rule)"
    if "rule \<in> set cropRuleTable" for rule
    using modifier_names_soil [OF that, of ?soil]
    by (auto simp: resolveRule_def split: option.splits)
  have rice: "\<exists>c \<in> set ?cs. name c = ''Rice'' \<and> suitability c = 85
      \<and> reason c = ''Optimal temperature for rice cultivation''"
    if "?soil = ''sandy'' \<or> ?soil = ''red''" and "ge ?temp 25 \<and> le ?temp 35"
  proof -
    have "applicability riceRule ?temp ?soil ?npk" "riceRule \<in> set cropRuleTable"
      using that(2) by (simp_all add: riceRule_def cropRuleTable_def)
    then have "resolveRule riceRule ?soil \<in> set ?cs"
      using fired by blast
    moreover have "name (resolveRule riceRule ?soil) = ''Rice''
        \<and> suitability (resolveRule riceRule ?soil) = 85
        \<and> reason (resolveRule riceRule ?soil) = ''Optimal temperature for rice cultivation''"
      using that(1) by (auto simp: resolveRule_def riceRule_def)
    ultimately show ?thesis by blast
  qed
  show ?thesis
    using cs fired resolved rice by blast
qed

theorem soil_modifier_resolution_witness:
  "valid (formInput ''28'' ''black'' 45 35 50)
   \<and> riceRule \<in> set cropRuleTable
   \<and> applicability riceRule (parseFloat ''28'') ''black''
       \<lparr>nitrogen = 45, phosphorus = 35, potassium = 50\<rparr>
   \<and> map_of (soilModifiers riceRule) ''black'' =
       Some (95, ''Optimal temperature and black soil excellent for rice cultivation with high water retention'')
   \<and> resolveRule riceRule ''black''
       \<in> set (cropsOf (generateRecommendations (formInput ''28'' ''black'' 45 35 50)))
   \<and> suitability (resolveRule riceRule ''black'') = 95
   \<and> valid (formInput ''28'' ''sandy'' 45 35 50)
   \<and> (\<exists>c \<in> set (cropsOf (generateRecommendations (formInput ''28'' ''sandy'' 45 35 50))).
         name c = ''Rice'' \<and> suitability c = 85
         \<and> reason c = ''Optimal temperature for rice cultivation'')"
proof -
  let ?st = "formInput ''28'' ''black'' 45 35 50"
  let ?st' = "formInput ''28'' ''sandy'' 45 35 50"
  have h: "valid ?st" and h': "valid ?st'"
    by (simp_all add: valid_formInput)
  have sel: "temperature ?st = ''28''" "soilType ?st = ''black''"
    "npkValues ?st = \<lparr>nitrogen = 45, phosphorus = 35, potassium = 50\<rparr>"
    "temperature ?st' = ''28''" "soilType ?st' = ''sandy''"
    by (simp_all add: formInput_def)
  have r: "riceRule \<in> set cropRuleTable"
    by (simp add: cropRuleTable_def)
  have a: "applicability riceRule (parseFloat ''28'') ''black''
      \<lparr>nitrogen = 45, phosphorus = 35, potassium = 50\<rparr>"
    by (simp add: riceRule_def parseFloat_28)
  have m: "map_of (soilModifiers riceRule) ''black'' =
      Some (95, ''Optimal temperature and black soil excellent for rice cultivation with high water retention'')"
    by (simp add: riceRule_def)
  have t: "ge (parseFloat ''28'') 25 \<and> le (parseFloat ''28'') 35"
    by (simp add: parseFloat_28)
  have "resolveRule riceRule ''black'' \<in> set (cropsOf (generateRecommendations ?st))
      \<and> suitability (resolveRule riceRule ''black'') = 95"
    using soil_modifier_resolution [OF h] r a m unfolding sel by fastforce
  moreover have "\<exists>c \<in> set (cropsOf (generateRecommendations ?st')).
      name c = ''Rice'' \<and> suitability c = 85
      \<and> reason c = ''Optimal temperature for rice cultivation''"
    using soil_modifier_resolution [OF h'] t unfolding sel by blast
  ultimately show ?thesis
    using h h' r a m by blast
qed

subsection \<open>Evaluation after validation\<close>

lemma no_crops_iff:
  "cropSuggestions temp soil npk = [] \<longleftrightarrow>
     \<not> (ge temp 15 \<and> le temp 35) \<and> \<not> (ge temp 25 \<and> le temp 40 \<and> 40 < potassium npk)"
  by (cases temp) (auto simp: cropSuggestions_def)

lemma arraySort_Nil_iff: "arraySort cmp xs = [] \<longleftrightarrow> xs = []"
  using set_arraySort [of cmp xs] by (metis set_empty)

text \<open>
  Claim C8: for every input that passes validation the handler ends with the success
  toast and a stored result, never with an error toast; the fertilizer list of the result
  is not empty, and the crop list may be empty. It is empty exactly when the temperature is
  outside 15 to 35 and not a temperature from 25 to 40 with potassium above 40; so it is
  empty whenever the temperature is above 40, for every soil type.
\<close>

theorem evaluation_total:
  assumes "valid st"
  shows "\<exists>r. generateRecommendations st =
                ([ToastSuccess ''AI recommendations generated successfully!''],
                 st\<lparr>recommendations := Some r, loading := False\<rparr>)
              \<and> fertilizers r \<noteq> []
              \<and> (crops r = [] \<longleftrightarrow>
                   \<not> (ge (parseFloat (temperature st)) 15 \<and> le (parseFloat (temperature st)) 35)
                   \<and> \<not> (ge (parseFloat (temperature st)) 25 \<and> le (parseFloat (temperature st)) 40
                         \<and> 40 < potassium (npkValues st)))
              \<and> (\<forall>t. parseFloat (temperature st) = Finite t \<and> 40 < t \<longrightarrow> crops r = [])"
proof -
  let ?npk = "npkValues st"
  let ?temp = "parseFloat (temperature st)"
  let ?pushed = "cropSuggestions ?temp (soilType st) ?npk"
  let ?r = "\<lparr>crops = arraySort bySuitability ?pushed, fertilizers = fertilizerSuggestions ?npk\<rparr>"
  have "generateRecommendations st =
      ([ToastSuccess ''AI recommendations generated successfully!''],
       st\<lparr>recommendations := Some ?r, loading := False\<rparr>)"
    using assms by (simp add: generateRecommendations_valid analysis_def Let_def)
  moreover have "fertilizers ?r \<noteq> []"
    by (simp add: fertilizerSuggestions_def)
  moreover have "crops ?r = [] \<longleftrightarrow>
      \<not> (ge ?temp 15 \<and> le ?temp 35) \<and> \<not> (ge ?temp 25 \<and> le ?temp 40 \<and> 40 < potassium ?npk)"
    by (simp add: arraySort_Nil_iff no_crops_iff)
  moreover have "crops ?r = []" if "?temp = Finite t \<and> 40 < t" for t
    using that by (simp add: arraySort_Nil_iff no_crops_iff)
  ultimately show ?thesis by blast
qed

theorem evaluation_total_witness:
  "valid (formInput ''45'' ''loamy'' 45 35 50)
   \<and> parseFloat (temperature (formInput ''45'' ''loamy'' 45 35 50)) = Finite 45
   \<and> (40::rat) < 45
   \<and> fst (generateRecommendations (formInput ''45'' ''loamy'' 45 35 50))
       = [ToastSuccess ''AI recommendations generated successfully!'']
   \<and> cropsOf (generateRecommendations (formInput ''45'' ''loamy'' 45 35 50)) = []
   \<and> fertilizersOf (generateRecommendations (formInput ''45'' ''loamy'' 45 35 50)) \<noteq> []
   \<and> valid (formInput ''40.000000000000000001'' ''black'' 45 35 50)
   \<and> fst (generateRecommendations (formInput ''40.000000000000000001'' ''black'' 45 35 50))
       = [ToastSuccess ''AI recommendations generated successfully!'']
   \<and> cropsOf (generateRecommendations (formInput ''40.000000000000000001'' ''black'' 45 35 50))
       \<noteq> []"
proof -
  let ?st = "formInput ''45'' ''loamy'' 45 35 50"
  let ?st' = "formInput ''40.000000000000000001'' ''black'' 45 35 50"
  have h: "valid ?st" and h': "valid ?st'"
    by (simp_all add: valid_formInput)
  have p: "parseFloat (temperature ?st) = Finite 45 \<and> (40::rat) < 45"
    by (simp add: formInput_def parseFloat_45)
  obtain r where r: "generateRecommendations ?st =
        ([ToastSuccess ''AI recommendations generated successfully!''],
         ?st\<lparr>recommendations := Some r, loading := False\<rparr>)"
      "fertilizers r \<noteq> []"
      "\<forall>t. parseFloat (temperature ?st) = Finite t \<and> 40 < t \<longrightarrow> crops r = []"
    using evaluation_total [OF h] by blast
  from r(3) p have "crops r = []" by blast
  with r(1,2) have one: "fst (generateRecommendations ?st)
        = [ToastSuccess ''AI recommendations generated successfully!'']
      \<and> cropsOf (generateRecommendations ?st) = []
      \<and> fertilizersOf (generateRecommendations ?st) \<noteq> []"
    by (simp add: cropsOf_def fertilizersOf_def)
  have fires: "ge (parseFloat (temperature ?st')) 25 \<and> le (parseFloat (temperature ?st')) 40
      \<and> 40 < potassium (npkValues ?st')"
    by (simp add: formInput_def parseFloat_above_40)
  obtain r' where r': "generateRecommendations ?st' =
        ([ToastSuccess ''AI recommendations generated successfully!''],
         ?st'\<lparr>recommendations := Some r', loading := False\<rparr>)"
      "crops r' = [] \<longleftrightarrow>
         \<not> (ge (parseFloat (temperature ?st')) 15 \<and> le (parseFloat (temperature ?st')) 35)
         \<and> \<not> (ge (parseFloat (temperature ?st')) 25 \<and> le (parseFloat (temperature ?st')) 40
               \<and> 40 < potassium (npkValues ?st'))"
    using evaluation_total [OF h'] by blast
  from r'(2) fires have "crops r' \<noteq> []" by blast
  with r'(1) have two: "fst (generateRecommendations ?st')
        = [ToastSuccess ''AI recommendations generated successfully!'']
      \<and> cropsOf (generateRecommendations ?st') \<noteq> []"
    by (simp add: cropsOf_def)
  show ?thesis
    using h h' p one two by blast
qed

subsection \<open>The two variants\<close>

text \<open>
  Claim C10: the simple variant and the soil-aware variant compute the same fertilizer
  sequence from the same NPK values: the same entries in the same order. So on a state
  that passes the validation of the soil-aware handler both handlers store the same
  fertilizer list.
\<close>

theorem variants_same_fertilizers:
  "fertilizerSuggestions_simple npk = fertilizerSuggestions npk
   \<and> (valid st \<longrightarrow>
        fertilizersOf (generateRecommendations_simple st)
          = fertilizersOf (generateRecommendations st))"
proof -
  have same: "fertilizerSuggestions_simple npk' = fertilizerSuggestions npk'" for npk'
    by (simp add: fertilizerSuggestions_simple_def fertilizerSuggestions_def)
  have "fertilizersOf (generateRecommendations_simple st)
      = fertilizerSuggestions_simple (npkValues st)" if "valid st"
    using that
    by (auto simp: valid_def generateRecommendations_simple_def analysis_simple_def
        fertilizersOf_def Let_def)
  then show ?thesis
    using same by (simp add: fertilizersOf_valid)
qed

theorem variants_same_fertilizers_witness:
  "valid (formInput ''28'' ''black'' 30 25 20)
   \<and> fertilizersOf (generateRecommendations_simple (formInput ''28'' ''black'' 30 25 20))
       = fertilizersOf (generateRecommendations (formInput ''28'' ''black'' 30 25 20))"
proof -
  have h: "valid (formInput ''28'' ''black'' 30 25 20)"
    by (simp add: valid_formInput)
  show ?thesis
    using h variants_same_fertilizers [of _ "formInput ''28'' ''black'' 30 25 20"] by blast
qed

end
